theory Spec2Isabelle
  imports Main "HOL-Library.Multiset" "HOL-Library.Char_ord" "HOL-Library.List_Lexorder"
begin

section \<open>Documents, errors and the store\<close>

text \<open>
  The controller \<^verbatim>\<open>src/controllers/genreController.js\<close> works on two collections.
  A Genre document has the fields \<^verbatim>\<open>_id\<close> and \<^verbatim>\<open>name\<close>; of a Book only the
  reference \<^verbatim>\<open>genre\<close> is read. Identifiers are strings, as they arrive in
  \<^verbatim>\<open>req.params.id\<close> and \<^verbatim>\<open>req.body.genreid\<close>.
\<close>

record genre =
  genre_id :: string
  name :: string

record book =
  book_id :: string
  book_genre :: string

text \<open>
  Values handed to \<^verbatim>\<open>next(err)\<close> or thrown: a failure of the store, an
  \<^verbatim>\<open>Error\<close> with a message and a \<^verbatim>\<open>status\<close>, and the \<^verbatim>\<open>TypeError\<close> of reading a
  property of \<^verbatim>\<open>null\<close>.
\<close>

datatype js_error = StoreError | Error string nat | TypeError

text \<open>
  Modelled from the spec: the entity store (the models \<^verbatim>\<open>../models/genre\<close>,
  \<^verbatim>\<open>../models/book\<close> and the database behind them are not part of the controller).
  The store holds the two collections in insertion order. Every call may fail
  with a store error: \<open>faults\<close> is the schedule of the calls still to come, one
  flag per call, \<open>True\<close> for a call that fails; an exhausted schedule means that
  no further call fails.
\<close>

record store =
  genres :: "genre list"
  books :: "book list"
  faults :: "bool list"

definition fault_now :: "store \<Rightarrow> bool" where
  "fault_now s = (case faults s of [] \<Rightarrow> False | b # _ \<Rightarrow> b)"

definition advance :: "store \<Rightarrow> store" where
  "advance s = s\<lparr>faults := tl (faults s)\<rparr>"

text \<open>
  Modelled from the spec: a read is one call to the store, answering with a store
  error or with the result.
\<close>

definition exec :: "(store \<Rightarrow> 'a) \<Rightarrow> store \<Rightarrow> store \<times> (js_error + 'a)" where
  "exec q s = (advance s, if fault_now s then Inl StoreError else Inr (q s))"

text \<open>
  Modelled from the spec: \<^verbatim>\<open>Genre.find().sort([['name', 'ascending']])\<close>, the store's
  find with an ordering: all Genres, ascending by name.
\<close>

definition Genre_find_sort_name :: "store \<Rightarrow> store \<times> (js_error + genre list)" where
  "Genre_find_sort_name = exec (\<lambda>s. sort_key name (genres s))"

text \<open>
  Modelled from the spec: \<^verbatim>\<open>Genre.findById(id)\<close>, the store's find-by-id: the document
  with the id, or \<^verbatim>\<open>null\<close>.
\<close>

definition Genre_findById :: "string \<Rightarrow> store \<Rightarrow> store \<times> (js_error + genre option)" where
  "Genre_findById i = exec (\<lambda>s. find (\<lambda>g. genre_id g = i) (genres s))"

text \<open>
  Modelled from the spec: \<^verbatim>\<open>Genre.findOne({ name: n })\<close>, the store's find-one-by-filter:
  the first document with exactly this name, or \<^verbatim>\<open>null\<close>.
\<close>

definition Genre_findOne_name :: "string \<Rightarrow> store \<Rightarrow> store \<times> (js_error + genre option)" where
  "Genre_findOne_name n = exec (\<lambda>s. find (\<lambda>g. name g = n) (genres s))"

text \<open>
  Modelled from the spec: \<^verbatim>\<open>Book.find({ genre: id })\<close>, the store's find-by-filter: the
  Books whose \<^verbatim>\<open>genre\<close> field equals the id.
\<close>

definition Book_find_genre :: "string \<Rightarrow> store \<Rightarrow> store \<times> (js_error + book list)" where
  "Book_find_genre i = exec (\<lambda>s. filter (\<lambda>b. book_genre b = i) (books s))"

text \<open>
  Modelled from the spec: \<^verbatim>\<open>genre.save(cb)\<close>, the store's insert. Identifiers are
  unique in a collection, so an insert under an identifier already present is
  refused with a store error.
\<close>

definition Genre_save :: "genre \<Rightarrow> store \<Rightarrow> store \<times> (js_error + genre)" where
  "Genre_save g s =
     (if fault_now s \<or> genre_id g \<in> set (map genre_id (genres s))
      then (advance s, Inl StoreError)
      else (advance (s\<lparr>genres := genres s @ [g]\<rparr>), Inr g))"

text \<open>
  Modelled from the spec: \<^verbatim>\<open>Genre.findByIdAndUpdate(id, doc, {}, cb)\<close>, the store's
  update-by-id. It overwrites the fields of the document identified by \<open>i\<close> with
  those of \<open>g\<close> and answers with the document as it was before the update (the
  options are empty), or with \<^verbatim>\<open>null\<close> when no document has the id. The identifier of a stored document cannot be changed: an update that
  carries another \<^verbatim>\<open>_id\<close> is a store error.
\<close>

definition Genre_findByIdAndUpdate ::
  "string \<Rightarrow> genre \<Rightarrow> store \<Rightarrow> store \<times> (js_error + genre option)" where
  "Genre_findByIdAndUpdate i g s =
     (if fault_now s then (advance s, Inl StoreError)
      else case find (\<lambda>d. genre_id d = i) (genres s) of
             None \<Rightarrow> (advance s, Inr None)
           | Some d \<Rightarrow>
               if genre_id g \<noteq> i then (advance s, Inl StoreError)
               else (advance (s\<lparr>genres := map (\<lambda>d. if genre_id d = i then g else d) (genres s)\<rparr>),
                     Inr (Some d)))"

text \<open>
  Modelled from the spec: \<^verbatim>\<open>Genre.findByIdAndRemove(id, cb)\<close>, the store's
  delete-by-id. It removes the document identified by \<open>i\<close>, if there is one; a
  missing document is no error.
\<close>

definition Genre_findByIdAndRemove :: "string \<Rightarrow> store \<Rightarrow> store \<times> (js_error + genre option)" where
  "Genre_findByIdAndRemove i s =
     (if fault_now s then (advance s, Inl StoreError)
      else (advance (s\<lparr>genres := filter (\<lambda>d. genre_id d \<noteq> i) (genres s)\<rparr>),
            Inr (find (\<lambda>d. genre_id d = i) (genres s))))"

text \<open>
  Modelled from the spec: the virtual property \<^verbatim>\<open>url\<close> of a Genre, declared in
  \<^verbatim>\<open>../models/genre\<close>; the spec gives the location the form \<^verbatim>\<open>/catalog/genre/{id}\<close>.
\<close>

definition url :: "genre \<Rightarrow> string" where
  "url g = ''/catalog/genre/'' @ genre_id g"

text \<open>
  Modelled from the spec: \<^verbatim>\<open>new Genre({ name, _id })\<close>, the constructor of the model
  declared in \<^verbatim>\<open>../models/genre\<close>, builds the candidate Genre. The document gets an
  identifier of its own, \<open>oid\<close>, unless one is passed (the comment at the update
  handler: "This is required, or a new ID will be assigned!"); it is the identifier
  under which an insert stores the candidate.
\<close>

definition new_Genre :: "string \<Rightarrow> string option \<Rightarrow> string \<Rightarrow> genre" where
  "new_Genre oid given n =
     \<lparr>genre_id = (case given of None \<Rightarrow> oid | Some i \<Rightarrow> i), name = n\<rparr>"

section \<open>Requests, responses and the middleware chain\<close>

text \<open>
  The parts of \<^verbatim>\<open>req\<close> the handlers read: \<^verbatim>\<open>req.params.id\<close>, \<^verbatim>\<open>req.body.name\<close>,
  \<^verbatim>\<open>req.body.genreid\<close>, and the errors a validation chain has recorded on the
  request, which \<^verbatim>\<open>validationResult(req)\<close> reads back.
\<close>

record request =
  params_id :: string
  body_name :: string
  body_genreid :: string
  validation_errors :: "string list"

text \<open>
  The object passed to \<^verbatim>\<open>res.render\<close>. A key that is absent or \<^verbatim>\<open>null\<close> is \<open>None\<close>;
  \<open>list_genres\<close> is the value under the key \<^verbatim>\<open>genre_list\<close>.
\<close>

record locals =
  title :: string
  genre :: "genre option"
  genre_books :: "book list option"
  list_genres :: "genre list option"
  errors :: "string list option"

definition view :: "string \<Rightarrow> locals" where
  "view t = \<lparr>title = t, genre = None, genre_books = None, list_genres = None, errors = None\<rparr>"

text \<open>
  What a handler does to \<^verbatim>\<open>res\<close> and \<^verbatim>\<open>next\<close>, in the order of the calls:
  \<^verbatim>\<open>res.render(view, locals)\<close>, \<^verbatim>\<open>res.redirect(location)\<close>, \<^verbatim>\<open>next(err)\<close>, and an
  exception thrown inside a callback.
\<close>

datatype action = Render string locals | Redirect string | Next js_error | Throw js_error

subsection \<open>The validation chain\<close>

text \<open>
  Modelled from the spec: the rules of the validation layer (the library
  \<^verbatim>\<open>express-validator\<close>). \<^verbatim>\<open>trim()\<close> strips the white space of JavaScript's
  \<^verbatim>\<open>\s\<close> from both ends; of the code units a \<^typ>\<open>char\<close> can hold these are tab,
  line feed, vertical tab, form feed, carriage return, space and the no-break
  space.
\<close>

definition whitespace :: "char \<Rightarrow> bool" where
  "whitespace c = (of_char c \<in> {9, 10, 11, 12, 13, 32, 160 :: nat})"

definition trim :: "string \<Rightarrow> string" where
  "trim str = rev (dropWhile whitespace (rev (dropWhile whitespace str)))"

text \<open>Modelled from the spec: \<^verbatim>\<open>isLength({ min: n })\<close>, the minimum-length rule.\<close>

definition isLength :: "nat \<Rightarrow> string \<Rightarrow> bool" where
  "isLength minimum str = (minimum \<le> length str)"

text \<open>
  Modelled from the spec: \<^verbatim>\<open>escape()\<close> replaces the eight characters that are unsafe
  in markup by entities.
\<close>

definition escape_char :: "char \<Rightarrow> string" where
  "escape_char c =
     (if c = CHR ''&'' then ''&amp;''
      else if c = CHR 0x22 then ''&quot;''
      else if c = CHR 0x27 then ''&#x27;''
      else if c = CHR ''<'' then ''&lt;''
      else if c = CHR ''>'' then ''&gt;''
      else if c = CHR ''/'' then ''&#x2F;''
      else if c = CHR 0x5C then ''&#x5C;''
      else if c = CHR 0x60 then ''&#96;''
      else [c])"

definition escape :: "string \<Rightarrow> string" where
  "escape str = concat (map escape_char str)"

text \<open>
  \<^verbatim>\<open>body('name', 'Genre name must contain at least 2 characters')
       .trim().isLength({ min: 2 }).escape()\<close>
  run as a middleware: the steps apply in order to \<^verbatim>\<open>req.body.name\<close>, a failed check
  records the message, and the sanitized value is written back to the request.
\<close>

definition body_name_chain :: "request \<Rightarrow> request" where
  "body_name_chain req =
     (let trimmed = trim (body_name req);
          found = (if isLength 2 trimmed then []
                   else [''Genre name must contain at least 2 characters''])
      in req\<lparr>body_name := escape trimmed,
              validation_errors := validation_errors req @ found\<rparr>)"

definition validationResult :: "request \<Rightarrow> string list" where
  "validationResult req = validation_errors req"

subsection \<open>Middleware\<close>

text \<open>
  An entry of a route's middleware array is a validation chain, which rewrites the
  request and calls \<^verbatim>\<open>next()\<close>, or a handler, which answers. A handler also takes
  the identifier that a \<^verbatim>\<open>new Genre\<close> would generate.
\<close>

datatype middleware =
    Validator "request \<Rightarrow> request"
  | Handler "string \<Rightarrow> request \<Rightarrow> store \<Rightarrow> store \<times> action list"

fun run :: "middleware list \<Rightarrow> string \<Rightarrow> request \<Rightarrow> store \<Rightarrow> store \<times> action list" where
  "run [] oid req s = (s, [])"
| "run (Validator v # ms) oid req s = run ms oid (v req) s"
| "run (Handler h # ms) oid req s = h oid req s"

text \<open>JavaScript's comma operator \<^verbatim>\<open>(a, b)\<close>: evaluates both operands, is the second.\<close>

definition comma :: "'a \<Rightarrow> 'b \<Rightarrow> 'b" where
  "comma a b = b"

text \<open>
  \<^verbatim>\<open>async.parallel({ genre: ..., genre_books: ... }, callback)\<close>: both tasks are
  started; the callback gets the first error, or both results.
\<close>

definition async_parallel ::
  "(store \<Rightarrow> store \<times> (js_error + 'a)) \<Rightarrow> (store \<Rightarrow> store \<times> (js_error + 'b)) \<Rightarrow>
   store \<Rightarrow> store \<times> (js_error + 'a \<times> 'b)" where
  "async_parallel t1 t2 s =
     (case t1 s of (s1, r1) \<Rightarrow>
        case t2 s1 of (s2, r2) \<Rightarrow>
          (s2, case r1 of Inl err \<Rightarrow> Inl err
               | Inr a \<Rightarrow> (case r2 of Inl err \<Rightarrow> Inl err | Inr b \<Rightarrow> Inr (a, b))))"

section \<open>The handlers\<close>

text \<open>\<^verbatim>\<open>exports.genre_list\<close>\<close>

definition genre_list :: "request \<Rightarrow> store \<Rightarrow> store \<times> action list" where
  "genre_list req s =
     (case Genre_find_sort_name s of
        (s1, Inl err) \<Rightarrow> (s1, [Next err])
      | (s1, Inr found) \<Rightarrow>
          (s1, [Render ''genre_list'' ((view ''Genre List'')\<lparr>list_genres := Some found\<rparr>)]))"

text \<open>\<^verbatim>\<open>exports.genre_detail\<close>\<close>

definition genre_detail :: "request \<Rightarrow> store \<Rightarrow> store \<times> action list" where
  "genre_detail req s =
     (case async_parallel (Genre_findById (params_id req)) (Book_find_genre (params_id req)) s of
        (s1, Inl err) \<Rightarrow> (s1, [Next err])
      | (s1, Inr (g, bs)) \<Rightarrow>
          (case g of
             None \<Rightarrow> (s1, [Next (Error ''Genre not found'' 404)])
           | Some d \<Rightarrow>
               (s1, [Render ''genre_detail''
                       ((view ''Genre Detail'')\<lparr>genre := Some d, genre_books := Some bs\<rparr>)])))"

text \<open>\<^verbatim>\<open>exports.genre_create_get\<close>\<close>

definition genre_create_get :: "request \<Rightarrow> store \<Rightarrow> store \<times> action list" where
  "genre_create_get req s = (s, [Render ''genre_form'' (view ''Create Genre'')])"

text \<open>
  \<^verbatim>\<open>exports.genre_create_post\<close>: the array of the validation chain and the handler.
\<close>

definition genre_create_post_handler ::
  "string \<Rightarrow> request \<Rightarrow> store \<Rightarrow> store \<times> action list" where
  "genre_create_post_handler oid req s =
     (let errs = validationResult req;
          candidate = new_Genre oid None (body_name req)
      in if errs \<noteq> []
         then (s, [Render ''genre_form''
                     ((view ''Create Genre'')\<lparr>genre := Some candidate, errors := Some errs\<rparr>)])
         else case Genre_findOne_name (body_name req) s of
                (s1, Inl err) \<Rightarrow> (s1, [Next err])
              | (s1, Inr (Some found_genre)) \<Rightarrow> (s1, [Redirect (url found_genre)])
              | (s1, Inr None) \<Rightarrow>
                  (case Genre_save candidate s1 of
                     (s2, Inl err) \<Rightarrow> (s2, [Next err])
                   | (s2, Inr saved) \<Rightarrow> (s2, [Redirect (url candidate)])))"

definition genre_create_post :: "middleware list" where
  "genre_create_post = [Validator body_name_chain, Handler genre_create_post_handler]"

text \<open>
  \<^verbatim>\<open>exports.genre_delete_get\<close>. The branch for a missing Genre redirects and does not
  return, so the render below it runs as well.
\<close>

definition genre_delete_get :: "request \<Rightarrow> store \<Rightarrow> store \<times> action list" where
  "genre_delete_get req s =
     (case async_parallel (Genre_findById (params_id req)) (Book_find_genre (params_id req)) s of
        (s1, Inl err) \<Rightarrow> (s1, [Next err])
      | (s1, Inr (g, bs)) \<Rightarrow>
          (s1, (if g = None then [Redirect ''/catalog/genres''] else [])
               @ [Render ''genre_delete''
                    ((view ''Delete Genre'')\<lparr>genre := g, genre_books := Some bs\<rparr>)]))"

text \<open>\<^verbatim>\<open>exports.genre_delete_post\<close>: the id is \<^verbatim>\<open>req.body.genreid\<close>.\<close>

definition genre_delete_post :: "request \<Rightarrow> store \<Rightarrow> store \<times> action list" where
  "genre_delete_post req s =
     (case async_parallel (Genre_findById (body_genreid req))
                          (Book_find_genre (body_genreid req)) s of
        (s1, Inl err) \<Rightarrow> (s1, [Next err])
      | (s1, Inr (g, bs)) \<Rightarrow>
          if length bs > 0
          then (s1, [Render ''genre_delete''
                       ((view ''Delete Genre'')\<lparr>genre := g, genre_books := Some bs\<rparr>)])
          else (case Genre_findByIdAndRemove (body_genreid req) s1 of
                  (s2, Inl err) \<Rightarrow> (s2, [Next err])
                | (s2, Inr removed) \<Rightarrow> (s2, [Redirect ''/catalog/genres''])))"

text \<open>\<^verbatim>\<open>exports.genre_update_get\<close>\<close>

definition genre_update_get :: "request \<Rightarrow> store \<Rightarrow> store \<times> action list" where
  "genre_update_get req s =
     (case Genre_findById (params_id req) s of
        (s1, Inl err) \<Rightarrow> (s1, [Next err])
      | (s1, Inr None) \<Rightarrow> (s1, [Next (Error ''Genre not found'' 404)])
      | (s1, Inr (Some d)) \<Rightarrow>
          (s1, [Render ''genre_form'' ((view ''Update Genre'')\<lparr>genre := Some d\<rparr>)]))"

text \<open>
  \<^verbatim>\<open>exports.genre_update_post\<close>. The array literal has ONE element: the validation
  chain and the handler stand inside one pair of parentheses, separated by a comma,
  which is the comma operator. When the update answers with \<^verbatim>\<open>null\<close>, reading
  \<^verbatim>\<open>thegenre.url\<close> throws.
\<close>

definition genre_update_post_handler ::
  "string \<Rightarrow> request \<Rightarrow> store \<Rightarrow> store \<times> action list" where
  "genre_update_post_handler oid req s =
     (let errs = validationResult req;
          candidate = new_Genre oid (Some (params_id req)) (body_name req)
      in if errs \<noteq> []
         then (s, [Render ''genre_form''
                     ((view ''Create Genre'')\<lparr>genre := Some candidate, errors := Some errs\<rparr>)])
         else case Genre_findByIdAndUpdate (params_id req) candidate s of
                (s1, Inl err) \<Rightarrow> (s1, [Next err])
              | (s1, Inr None) \<Rightarrow> (s1, [Throw TypeError])
              | (s1, Inr (Some thegenre)) \<Rightarrow> (s1, [Redirect (url thegenre)]))"

definition genre_update_post :: "middleware list" where
  "genre_update_post =
     [comma (Validator body_name_chain) (Handler genre_update_post_handler)]"

section \<open>Routes, store calls that succeed, sample data\<close>

text \<open>
  A request enters a route with no validation result recorded on it; the
  middleware of the route then run in order.
\<close>

definition route ::
  "middleware list \<Rightarrow> string \<Rightarrow> request \<Rightarrow> store \<Rightarrow> store \<times> action list" where
  "route ms oid req s = run ms oid (req\<lparr>validation_errors := []\<rparr>) s"

text \<open>\<open>succeeds n s\<close>: none of the next \<open>n\<close> calls to the store fails.\<close>

fun succeeds :: "nat \<Rightarrow> store \<Rightarrow> bool" where
  "succeeds 0 s = True"
| "succeeds (Suc n) s = (\<not> fault_now s \<and> succeeds n (advance s))"

text \<open>A small catalog: two Genres, created in this order, and one Book of the second.\<close>

definition library :: store where
  "library =
     \<lparr>genres = [\<lparr>genre_id = ''g2'', name = ''Poetry''\<rparr>,
                \<lparr>genre_id = ''g1'', name = ''Fiction''\<rparr>],
      books = [\<lparr>book_id = ''b1'', book_genre = ''g1''\<rparr>],
      faults = []\<rparr>"

definition request_of :: "string \<Rightarrow> string \<Rightarrow> string \<Rightarrow> request" where
  "request_of path_id form_name form_genreid =
     \<lparr>params_id = path_id, body_name = form_name, body_genreid = form_genreid,
      validation_errors = []\<rparr>"

section \<open>Facts about lists and about the store\<close>

lemma filter_key_empty: "i \<notin> f ` set xs \<Longrightarrow> filter (\<lambda>x. f x = i) xs = []"
  by (induction xs) auto

lemma filter_key_nonempty: "i \<in> f ` set xs \<Longrightarrow> filter (\<lambda>x. f x = i) xs \<noteq> []"
  by (induction xs) auto

lemma filter_other_keys: "i \<notin> f ` set xs \<Longrightarrow> filter (\<lambda>x. f x \<noteq> i) xs = xs"
  by (induction xs) auto

lemma key_removed: "i \<notin> f ` set (filter (\<lambda>x. f x \<noteq> i) xs)"
  by (induction xs) auto

lemma find_None_image: "find (\<lambda>g. f g = i) xs = None \<longleftrightarrow> i \<notin> f ` set xs"
  by (auto simp: find_None_iff)

lemma find_Some_key: "i \<in> f ` set xs \<Longrightarrow> \<exists>d. find (\<lambda>x. f x = i) xs = Some d \<and> f d = i"
  by (induction xs) auto

lemma find_in_set: "find P xs = Some d \<Longrightarrow> d \<in> set xs \<and> P d"
  by (induction xs) (auto split: if_splits)

lemma find_appended: "find P xs = None \<Longrightarrow> find P (xs @ ys) = find P ys"
  by (induction xs) (auto split: if_splits)

lemma find_replaced:
  "i \<in> genre_id ` set xs \<Longrightarrow> genre_id g = i \<Longrightarrow>
   find (\<lambda>d. genre_id d = i) (map (\<lambda>d. if genre_id d = i then g else d) xs) = Some g"
  by (induction xs) auto

lemma ids_replaced:
  "genre_id g = i \<Longrightarrow>
   map genre_id (map (\<lambda>d. if genre_id d = i then g else d) xs) = map genre_id xs"
  by (induction xs) auto

lemma count_sort_key: "length (filter P (sort_key f xs)) = length (filter P xs)"
proof -
  have "mset (filter P (sort_key f xs)) = mset (filter P xs)"
    by (simp only: mset_filter mset_sort)
  then show ?thesis
    by (metis size_mset)
qed

lemma advance_simps [simp]: "genres (advance s) = genres s" "books (advance s) = books s"
  by (simp_all add: advance_def)

lemma advance_genres_update [simp]:
  "advance (s\<lparr>genres := x\<rparr>) = (advance s)\<lparr>genres := x\<rparr>"
  "fault_now (s\<lparr>genres := x\<rparr>) = fault_now s"
  by (simp_all add: advance_def fault_now_def)

lemmas store_defs = exec_def Genre_find_sort_name_def Genre_findById_def Genre_findOne_name_def
  Book_find_genre_def Genre_save_def Genre_findByIdAndUpdate_def Genre_findByIdAndRemove_def
  async_parallel_def

lemmas sample_defs = library_def request_of_def fault_now_def advance_def

lemmas chain_defs = validationResult_def body_name_chain_def isLength_def trim_def
  whitespace_def escape_def escape_char_def

text \<open>
  Identifiers are unique in the collection, and the three writes keep them so;
  the delete-by-id then removes exactly the one document that find-by-id answers
  with.
\<close>

lemma remove_by_id_once:
  "distinct (map genre_id xs) \<Longrightarrow>
   filter (\<lambda>d. genre_id d \<noteq> i) xs =
     (case find (\<lambda>d. genre_id d = i) xs of None \<Rightarrow> xs | Some d \<Rightarrow> remove1 d xs)"
proof (induction xs)
  case Nil
  then show ?case by simp
next
  case (Cons x xs)
  show ?case
  proof (cases "genre_id x = i")
    case True
    then have "i \<notin> genre_id ` set xs"
      using Cons.prems by auto
    then have "filter (\<lambda>d. genre_id d \<noteq> i) xs = xs"
      by (rule filter_other_keys)
    with True show ?thesis by simp
  next
    case False
    then show ?thesis
      using Cons by (auto split: option.splits dest: find_in_set)
  qed
qed

lemma save_keeps_ids_distinct:
  "distinct (map genre_id (genres s)) \<Longrightarrow>
   distinct (map genre_id (genres (fst (Genre_save g s))))"
  by (auto simp: Genre_save_def)

lemma update_keeps_ids_distinct:
  "distinct (map genre_id (genres s)) \<Longrightarrow>
   distinct (map genre_id (genres (fst (Genre_findByIdAndUpdate i g s))))"
  by (auto simp: Genre_findByIdAndUpdate_def ids_replaced [unfolded map_map] split: option.splits)

lemma remove_keeps_ids_distinct:
  "distinct (map genre_id (genres s)) \<Longrightarrow>
   distinct (map genre_id (genres (fst (Genre_findByIdAndRemove i s))))"
  by (auto simp: Genre_findByIdAndRemove_def distinct_map_filter)

text \<open>The two store paths of create-submit, and the render of the list.\<close>

lemma create_found:
  assumes "2 \<le> length (trim (body_name req))" and "\<not> fault_now s"
      and "find (\<lambda>g. name g = escape (trim (body_name req))) (genres s) = Some g"
  shows "route genre_create_post oid req s = (advance s, [Redirect (url g)])"
  using assms
  by (simp add: route_def genre_create_post_def genre_create_post_handler_def
      validationResult_def body_name_chain_def isLength_def Let_def store_defs)

lemma create_inserted:
  assumes "2 \<le> length (trim (body_name req))"
      and "\<not> fault_now s" and "\<not> fault_now (advance s)"
      and "find (\<lambda>g. name g = escape (trim (body_name req))) (genres s) = None"
      and "oid \<notin> genre_id ` set (genres s)"
  shows "route genre_create_post oid req s =
          ((advance (advance s))
             \<lparr>genres := genres s @ [\<lparr>genre_id = oid, name = escape (trim (body_name req))\<rparr>]\<rparr>,
           [Redirect (''/catalog/genre/'' @ oid)])"
  using assms
  by (simp add: route_def genre_create_post_def genre_create_post_handler_def
      validationResult_def body_name_chain_def isLength_def Let_def new_Genre_def url_def
      store_defs)

lemma list_rendered:
  "\<not> fault_now s \<Longrightarrow>
   genre_list req s =
     (advance s,
      [Render ''genre_list''
         ((view ''Genre List'')\<lparr>list_genres := Some (sort_key name (genres s))\<rparr>)])"
  by (simp add: genre_list_def store_defs)

section \<open>The claims\<close>

subsection \<open>C1: update-submit validates and sanitizes the name as create-submit does\<close>

text \<open>
  Claim C1 says that update-submit trims, checks and escapes \<^verbatim>\<open>name\<close> exactly as
  create-submit does, so that the name stored at the id is the trimmed and escaped
  form of the input, never the raw markup. The handler does not do that: the
  validation chain of \<^verbatim>\<open>genre_update_post\<close> is the left operand of a comma operator
  and is never registered as a middleware. Submitting the name \<^verbatim>\<open><script>\<close> for
  the existing Genre \<^verbatim>\<open>g1\<close> stores the raw markup, where create-submit, on the same
  name, stores the escaped form.
\<close>

theorem update_post_stores_raw_name:
  "route genre_update_post ''n1'' (request_of ''g1'' ''<script>'' [])
     \<lparr>genres = [\<lparr>genre_id = ''g1'', name = ''Fiction''\<rparr>], books = [], faults = []\<rparr>
   = (\<lparr>genres = [\<lparr>genre_id = ''g1'', name = ''<script>''\<rparr>], books = [], faults = []\<rparr>,
      [Redirect ''/catalog/genre/g1''])
   \<and> route genre_create_post ''n1'' (request_of [] ''<script>'' [])
     \<lparr>genres = [\<lparr>genre_id = ''g1'', name = ''Fiction''\<rparr>], books = [], faults = []\<rparr>
   = (\<lparr>genres = [\<lparr>genre_id = ''g1'', name = ''Fiction''\<rparr>,
                  \<lparr>genre_id = ''n1'', name = ''&lt;script&gt;''\<rparr>], books = [], faults = []\<rparr>,
      [Redirect ''/catalog/genre/n1''])"
  by (simp add: route_def genre_update_post_def genre_create_post_def comma_def
      genre_update_post_handler_def genre_create_post_handler_def chain_defs
      new_Genre_def url_def store_defs sample_defs)

subsection \<open>C2: delete-submit is refused while Books depend on the Genre\<close>

text \<open>
  Claim C2: for every delete-submit request whose id has at least one dependent
  Book, the Genre is not removed from the store, and the response is one render of
  the delete-confirmation view with the current Genre and the list of the
  dependent Books; no error is signalled. (The two fetches succeed.)
\<close>

theorem delete_post_blocked_by_books:
  assumes "succeeds 2 s" and "body_genreid req \<in> book_genre ` set (books s)"
  shows "\<exists>s'. genre_delete_post req s =
            (s', [Render ''genre_delete''
                    ((view ''Delete Genre'')
                       \<lparr>genre := find (\<lambda>g. genre_id g = body_genreid req) (genres s),
                        genre_books :=
                          Some (filter (\<lambda>b. book_genre b = body_genreid req) (books s))\<rparr>)])
          \<and> genres s' = genres s \<and> books s' = books s"
proof -
  have ok: "\<not> fault_now s" "\<not> fault_now (advance s)"
    using assms(1) by (simp_all add: eval_nat_numeral)
  have "filter (\<lambda>b. book_genre b = body_genreid req) (books s) \<noteq> []"
    using assms(2) by (rule filter_key_nonempty)
  then show ?thesis
    by (simp add: genre_delete_post_def store_defs ok)
qed

theorem delete_post_blocked_by_books_witness:
  "succeeds 2 library
   \<and> body_genreid (request_of [] [] ''g1'') \<in> book_genre ` set (books library)
   \<and> (\<exists>s'. genre_delete_post (request_of [] [] ''g1'') library =
            (s', [Render ''genre_delete''
                    ((view ''Delete Genre'')
                       \<lparr>genre := find (\<lambda>g. genre_id g = body_genreid (request_of [] [] ''g1''))
                                  (genres library),
                        genre_books :=
                          Some (filter (\<lambda>b. book_genre b = body_genreid (request_of [] [] ''g1''))
                                  (books library))\<rparr>)])
          \<and> genres s' = genres library \<and> books s' = books library)"
proof -
  have h1: "succeeds 2 library"
    by (simp add: eval_nat_numeral sample_defs)
  have h2: "body_genreid (request_of [] [] ''g1'') \<in> book_genre ` set (books library)"
    by (simp add: sample_defs)
  from h1 h2 delete_post_blocked_by_books [OF h1 h2] show ?thesis
    by (intro conjI)
qed

subsection \<open>C3: create-submit of a name that exists\<close>

text \<open>
  Claim C3: for every create-submit request (one that passes validation) whose
  sanitized name equals the name of an existing Genre, no record is inserted and
  no error is raised: the response is a redirect to the detail location of an
  existing Genre of that name. So in a store that holds the name at most once,
  creating the same name twice and then listing yields exactly one Genre with
  that name. (The identifier generated for the first candidate is fresh, and the
  store calls succeed.)
\<close>

theorem create_post_existing_name:
  assumes "2 \<le> length (trim (body_name req))" and "succeeds 4 s"
  shows "(escape (trim (body_name req)) \<in> name ` set (genres s) \<longrightarrow>
            (\<exists>g \<in> set (genres s). name g = escape (trim (body_name req))
               \<and> route genre_create_post oid req s = (advance s, [Redirect (url g)])))
       \<and> (length (filter (\<lambda>g. name g = escape (trim (body_name req))) (genres s)) \<le> 1
            \<and> oid \<notin> genre_id ` set (genres s) \<longrightarrow>
            (\<exists>s1 a1 s2 a2 s3 found.
                route genre_create_post oid req s = (s1, a1)
              \<and> route genre_create_post oid' req s1 = (s2, a2)
              \<and> genre_list req' s2 =
                  (s3, [Render ''genre_list''
                          ((view ''Genre List'')\<lparr>list_genres := Some found\<rparr>)])
              \<and> length (filter (\<lambda>g. name g = escape (trim (body_name req))) found) = 1))"
proof -
  let ?n = "escape (trim (body_name req))"
  have ok: "\<not> fault_now s" "\<not> fault_now (advance s)" "\<not> fault_now (advance (advance s))"
    using assms(2) by (simp_all add: eval_nat_numeral)
  have found: "\<exists>g \<in> set (genres s). name g = ?n
                 \<and> route genre_create_post oid req s = (advance s, [Redirect (url g)])"
    if known: "?n \<in> name ` set (genres s)"
  proof -
    obtain g where g: "find (\<lambda>g. name g = ?n) (genres s) = Some g"
      using find_Some_key [OF known] by blast
    from find_in_set [OF g] create_found [OF assms(1) ok(1) g] show ?thesis
      by blast
  qed
  have twice: "\<exists>s1 a1 s2 a2 s3 found.
                route genre_create_post oid req s = (s1, a1)
              \<and> route genre_create_post oid' req s1 = (s2, a2)
              \<and> genre_list req' s2 =
                  (s3, [Render ''genre_list''
                          ((view ''Genre List'')\<lparr>list_genres := Some found\<rparr>)])
              \<and> length (filter (\<lambda>g. name g = ?n) found) = 1"
    if le: "length (filter (\<lambda>g. name g = ?n) (genres s)) \<le> 1"
      and fresh: "oid \<notin> genre_id ` set (genres s)"
  proof (cases "?n \<in> name ` set (genres s)")
    case True
    obtain g where g: "find (\<lambda>g. name g = ?n) (genres s) = Some g"
      using find_Some_key [OF True] by blast
    have g': "find (\<lambda>g. name g = ?n) (genres (advance s)) = Some g"
      using g by simp
    have c1: "route genre_create_post oid req s = (advance s, [Redirect (url g)])"
      by (rule create_found [OF assms(1) ok(1) g])
    have c2: "route genre_create_post oid' req (advance s)
                = (advance (advance s), [Redirect (url g)])"
      by (rule create_found [OF assms(1) ok(2) g'])
    have l: "genre_list req' (advance (advance s)) =
               (advance (advance (advance s)),
                [Render ''genre_list''
                   ((view ''Genre List'')\<lparr>list_genres := Some (sort_key name (genres s))\<rparr>)])"
      using list_rendered [OF ok(3), of req'] by simp
    have "filter (\<lambda>g. name g = ?n) (genres s) \<noteq> []"
      using True by (rule filter_key_nonempty)
    then have "length (filter (\<lambda>g. name g = ?n) (genres s)) = 1"
      using le by (cases "filter (\<lambda>g. name g = ?n) (genres s)") auto
    then have "length (filter (\<lambda>g. name g = ?n) (sort_key name (genres s))) = 1"
      by (simp only: count_sort_key)
    with c1 c2 l show ?thesis by blast
  next
    case False
    let ?c = "\<lparr>genre_id = oid, name = ?n\<rparr>"
    let ?s1 = "(advance (advance s))\<lparr>genres := genres s @ [?c]\<rparr>"
    have none: "find (\<lambda>g. name g = ?n) (genres s) = None"
      using False by (simp add: find_None_image)
    have c1: "route genre_create_post oid req s = (?s1, [Redirect (''/catalog/genre/'' @ oid)])"
      by (rule create_inserted [OF assms(1) ok(1) ok(2) none fresh])
    have ok1: "\<not> fault_now ?s1" "\<not> fault_now (advance ?s1)"
      using assms(2) by (simp_all add: eval_nat_numeral)
    have g1: "find (\<lambda>g. name g = ?n) (genres ?s1) = Some ?c"
      using none by (simp add: find_appended)
    have c2: "route genre_create_post oid' req ?s1 = (advance ?s1, [Redirect (url ?c)])"
      by (rule create_found [OF assms(1) ok1(1) g1])
    have l: "genre_list req' (advance ?s1) =
               (advance (advance ?s1),
                [Render ''genre_list''
                   ((view ''Genre List'')
                      \<lparr>list_genres := Some (sort_key name (genres s @ [?c]))\<rparr>)])"
      using list_rendered [OF ok1(2), of req'] by simp
    have "filter (\<lambda>g. name g = ?n) (genres s) = []"
      using False by (rule filter_key_empty)
    then have "length (filter (\<lambda>g. name g = ?n) (genres s @ [?c])) = 1"
      by simp
    then have "length (filter (\<lambda>g. name g = ?n) (sort_key name (genres s @ [?c]))) = 1"
      by (simp only: count_sort_key)
    with c1 c2 l show ?thesis by blast
  qed
  from found twice show ?thesis by blast
qed

theorem create_post_existing_name_witness:
  "2 \<le> length (trim (body_name (request_of [] '' Fiction '' [])))
   \<and> succeeds 4 library
   \<and> escape (trim (body_name (request_of [] '' Fiction '' []))) \<in> name ` set (genres library)
   \<and> length (filter (\<lambda>g. name g = escape (trim (body_name (request_of [] '' Fiction '' []))))
               (genres library)) \<le> 1
   \<and> ''n1'' \<notin> genre_id ` set (genres library)
   \<and> (\<exists>g \<in> set (genres library).
          name g = escape (trim (body_name (request_of [] '' Fiction '' [])))
        \<and> route genre_create_post ''n1'' (request_of [] '' Fiction '' []) library
            = (advance library, [Redirect (url g)]))
   \<and> (\<exists>s1 a1 s2 a2 s3 found.
          route genre_create_post ''n1'' (request_of [] '' Fiction '' []) library = (s1, a1)
        \<and> route genre_create_post ''n2'' (request_of [] '' Fiction '' []) s1 = (s2, a2)
        \<and> genre_list (request_of [] [] []) s2 =
            (s3, [Render ''genre_list''
                    ((view ''Genre List'')\<lparr>list_genres := Some found\<rparr>)])
        \<and> length (filter (\<lambda>g. name g = escape (trim (body_name (request_of [] '' Fiction '' []))))
                    found) = 1)"
proof -
  have h1: "2 \<le> length (trim (body_name (request_of [] '' Fiction '' [])))"
    by (simp add: request_of_def chain_defs)
  have h2: "succeeds 4 library"
    by (simp add: eval_nat_numeral sample_defs)
  have n: "escape (trim (body_name (request_of [] '' Fiction '' []))) = ''Fiction''"
    by (simp add: request_of_def chain_defs)
  have h3: "escape (trim (body_name (request_of [] '' Fiction '' []))) \<in> name ` set (genres library)"
    unfolding n by (simp add: library_def)
  have h4: "length (filter (\<lambda>g. name g = escape (trim (body_name (request_of [] '' Fiction '' []))))
               (genres library)) \<le> 1"
    unfolding n by (simp add: library_def)
  have h5: "''n1'' \<notin> genre_id ` set (genres library)"
    by (simp add: library_def)
  from create_post_existing_name [OF h1 h2, of "''n1''" "''n2''" "request_of [] [] []"] h3 h4 h5
  have "(\<exists>g \<in> set (genres library).
          name g = escape (trim (body_name (request_of [] '' Fiction '' [])))
        \<and> route genre_create_post ''n1'' (request_of [] '' Fiction '' []) library
            = (advance library, [Redirect (url g)]))"
    and "(\<exists>s1 a1 s2 a2 s3 found.
          route genre_create_post ''n1'' (request_of [] '' Fiction '' []) library = (s1, a1)
        \<and> route genre_create_post ''n2'' (request_of [] '' Fiction '' []) s1 = (s2, a2)
        \<and> genre_list (request_of [] [] []) s2 =
            (s3, [Render ''genre_list''
                    ((view ''Genre List'')\<lparr>list_genres := Some found\<rparr>)])
        \<and> length (filter (\<lambda>g. name g = escape (trim (body_name (request_of [] '' Fiction '' []))))
                    found) = 1)"
    by blast+
  with h1 h2 h3 h4 h5 show ?thesis
    by (intro conjI)
qed

subsection \<open>C4: update-submit keeps the id\<close>

text \<open>
  Claim C4: for every update-submit request on an existing Genre, the candidate
  written to the store carries the id of the route path, whatever identifier the
  constructor would have generated: after the update, fetching by that id
  returns the new name, and no id in the collection has changed. (The update and
  the fetch succeed.)
\<close>

theorem update_post_keeps_id:
  assumes "succeeds 2 s" and "params_id req \<in> genre_id ` set (genres s)"
  shows "\<exists>s'. route genre_update_post oid req s
               = (s', [Redirect (''/catalog/genre/'' @ params_id req)])
          \<and> snd (Genre_findById (params_id req) s')
               = Inr (Some \<lparr>genre_id = params_id req, name = body_name req\<rparr>)
          \<and> map genre_id (genres s') = map genre_id (genres s)"
proof -
  have ok: "\<not> fault_now s" "\<not> fault_now (advance s)"
    using assms(1) by (simp_all add: eval_nat_numeral)
  obtain d where d: "find (\<lambda>g. genre_id g = params_id req) (genres s) = Some d"
      "genre_id d = params_id req"
    using find_Some_key [OF assms(2)] by blast
  show ?thesis
    by (simp add: route_def genre_update_post_def comma_def genre_update_post_handler_def
        validationResult_def new_Genre_def url_def store_defs ok d
        find_replaced [OF assms(2)] ids_replaced)
qed

theorem update_post_keeps_id_witness:
  "succeeds 2 library
   \<and> params_id (request_of ''g1'' ''Novels'' []) \<in> genre_id ` set (genres library)
   \<and> (\<exists>s'. route genre_update_post ''n1'' (request_of ''g1'' ''Novels'' []) library
               = (s', [Redirect (''/catalog/genre/'' @ params_id (request_of ''g1'' ''Novels'' []))])
          \<and> snd (Genre_findById (params_id (request_of ''g1'' ''Novels'' [])) s')
               = Inr (Some \<lparr>genre_id = params_id (request_of ''g1'' ''Novels'' []),
                             name = body_name (request_of ''g1'' ''Novels'' [])\<rparr>)
          \<and> map genre_id (genres s') = map genre_id (genres library))"
proof -
  have h1: "succeeds 2 library"
    by (simp add: eval_nat_numeral sample_defs)
  have h2: "params_id (request_of ''g1'' ''Novels'' []) \<in> genre_id ` set (genres library)"
    by (simp add: sample_defs)
  from h1 h2 update_post_keeps_id [OF h1 h2, of "''n1''"] show ?thesis
    by (intro conjI)
qed

subsection \<open>C5: delete-display of a missing Genre\<close>

text \<open>
  Claim C5 says that delete-display, for an id that matches no Genre, gives exactly
  one response, the redirect to the Genre list, and renders no view. The handler
  redirects and then, since the branch does not return, also calls the render of
  the delete-confirmation view, with no Genre in it: two responses for the id
  \<^verbatim>\<open>g9\<close>, which no Genre of the catalog has.
\<close>

theorem delete_get_missing_genre_two_responses:
  "genre_delete_get (request_of ''g9'' [] []) library
   = (library,
      [Redirect ''/catalog/genres'',
       Render ''genre_delete''
         \<lparr>title = ''Delete Genre'', genre = None, genre_books = Some [],
          list_genres = None, errors = None\<rparr>])"
  by (simp add: genre_delete_get_def view_def store_defs sample_defs)

subsection \<open>C6: create-submit of a name that is too short\<close>

text \<open>
  Claim C6: for every create-submit request whose name is shorter than 2 after
  trimming, the handler renders the create form again with the candidate and the
  list of validation messages, the minimum-length message among them; the store is
  not called, and no error is propagated. A name of length 2 (or more) after
  trimming passes validation: no message is recorded and the form is not rendered.
\<close>

theorem create_post_min_length:
  "(length (trim (body_name req)) < 2 \<longrightarrow>
      route genre_create_post oid req s =
        (s, [Render ''genre_form''
               ((view ''Create Genre'')
                  \<lparr>genre := Some \<lparr>genre_id = oid, name = escape (trim (body_name req))\<rparr>,
                   errors := Some [''Genre name must contain at least 2 characters'']\<rparr>)]))
   \<and> (2 \<le> length (trim (body_name req)) \<longrightarrow>
        validationResult (body_name_chain (req\<lparr>validation_errors := []\<rparr>)) = []
        \<and> (\<forall>v l. Render v l \<notin> set (snd (route genre_create_post oid req s))))"
  by (auto simp: route_def genre_create_post_def genre_create_post_handler_def
      validationResult_def body_name_chain_def isLength_def new_Genre_def Let_def store_defs
      split: option.splits)

theorem create_post_min_length_witness:
  "(length (trim (body_name (request_of [] '' A '' []))) < 2
    \<and> route genre_create_post ''n1'' (request_of [] '' A '' []) library =
        (library,
         [Render ''genre_form''
            ((view ''Create Genre'')
               \<lparr>genre := Some \<lparr>genre_id = ''n1'',
                                name = escape (trim (body_name (request_of [] '' A '' [])))\<rparr>,
                errors := Some [''Genre name must contain at least 2 characters'']\<rparr>)]))
   \<and> (2 \<le> length (trim (body_name (request_of [] ''Ab'' [])))
      \<and> validationResult (body_name_chain ((request_of [] ''Ab'' [])\<lparr>validation_errors := []\<rparr>)) = []
      \<and> (\<forall>v l. Render v l \<notin> set (snd (route genre_create_post ''n1'' (request_of [] ''Ab'' []) library))))"
proof -
  have short: "length (trim (body_name (request_of [] '' A '' []))) < 2"
    by (simp add: request_of_def chain_defs)
  have enough: "2 \<le> length (trim (body_name (request_of [] ''Ab'' [])))"
    by (simp add: request_of_def chain_defs)
  from short enough
    create_post_min_length [of "request_of [] '' A '' []" "''n1''" library]
    create_post_min_length [of "request_of [] ''Ab'' []" "''n1''" library]
  show ?thesis
    by blast
qed

subsection \<open>C7: delete-submit without dependent Books\<close>

text \<open>
  Claim C7: for every delete-submit request whose id has no dependent Book, the
  Genre with that id is deleted from the store (the other Genres and the Books
  stay) and the response is a redirect to the Genre list; a detail request for
  that id then signals not-found. The id is the one of the form body: the id of
  the route path does not matter. (The store calls succeed.)
\<close>

theorem delete_post_removes_genre:
  assumes "succeeds 5 s" and "body_genreid req \<notin> book_genre ` set (books s)"
  shows "\<exists>s'. genre_delete_post req s = (s', [Redirect ''/catalog/genres''])
          \<and> genres s' = filter (\<lambda>g. genre_id g \<noteq> body_genreid req) (genres s)
          \<and> body_genreid req \<notin> genre_id ` set (genres s')
          \<and> books s' = books s
          \<and> snd (genre_detail (req'\<lparr>params_id := body_genreid req\<rparr>) s')
                = [Next (Error ''Genre not found'' 404)]
          \<and> genre_delete_post (req\<lparr>params_id := p\<rparr>) s = genre_delete_post req s"
proof -
  define s' where
    "s' = (advance (advance (advance s)))
            \<lparr>genres := filter (\<lambda>g. genre_id g \<noteq> body_genreid req) (genres s)\<rparr>"
  have ok: "\<not> fault_now s" "\<not> fault_now (advance s)" "\<not> fault_now (advance (advance s))"
    "\<not> fault_now (advance (advance (advance s)))"
    "\<not> fault_now (advance (advance (advance (advance s))))"
    using assms(1) by (simp_all add: eval_nat_numeral)
  have nb: "filter (\<lambda>b. book_genre b = body_genreid req) (books s) = []"
    using assms(2) by (rule filter_key_empty)
  have post: "genre_delete_post req s = (s', [Redirect ''/catalog/genres''])"
    by (simp add: genre_delete_post_def store_defs ok nb s'_def)
  have gs: "genres s' = filter (\<lambda>g. genre_id g \<noteq> body_genreid req) (genres s)"
    and bs: "books s' = books s"
    by (simp_all add: s'_def)
  have absent: "body_genreid req \<notin> genre_id ` set (genres s')"
    unfolding gs by (rule key_removed)
  have ok': "\<not> fault_now s'" "\<not> fault_now (advance s')"
    using ok by (simp_all add: s'_def)
  have detail: "snd (genre_detail (req'\<lparr>params_id := body_genreid req\<rparr>) s')
                  = [Next (Error ''Genre not found'' 404)]"
    using absent by (simp add: genre_detail_def store_defs ok' find_None_image [symmetric])
  have body: "body_genreid (req\<lparr>params_id := p\<rparr>) = body_genreid req"
    by simp
  have path: "genre_delete_post (req\<lparr>params_id := p\<rparr>) s = genre_delete_post req s"
    unfolding genre_delete_post_def body by (rule refl)
  show ?thesis
    using post gs absent bs detail path by blast
qed

theorem delete_post_removes_genre_witness:
  "succeeds 5 library
   \<and> body_genreid (request_of ''g1'' [] ''g2'') \<notin> book_genre ` set (books library)
   \<and> (\<exists>s'. genre_delete_post (request_of ''g1'' [] ''g2'') library
               = (s', [Redirect ''/catalog/genres''])
          \<and> genres s' = filter (\<lambda>g. genre_id g \<noteq> body_genreid (request_of ''g1'' [] ''g2''))
                           (genres library)
          \<and> body_genreid (request_of ''g1'' [] ''g2'') \<notin> genre_id ` set (genres s')
          \<and> books s' = books library
          \<and> snd (genre_detail
                   ((request_of [] [] [])\<lparr>params_id := body_genreid (request_of ''g1'' [] ''g2'')\<rparr>) s')
                = [Next (Error ''Genre not found'' 404)]
          \<and> genre_delete_post ((request_of ''g1'' [] ''g2'')\<lparr>params_id := ''g2''\<rparr>) library
                = genre_delete_post (request_of ''g1'' [] ''g2'') library)"
proof -
  have h1: "succeeds 5 library"
    by (simp add: eval_nat_numeral sample_defs)
  have h2: "body_genreid (request_of ''g1'' [] ''g2'') \<notin> book_genre ` set (books library)"
    by (simp add: sample_defs)
  from h1 h2 delete_post_removes_genre [OF h1 h2, of "request_of [] [] []" "''g2''"]
  show ?thesis
    by (intro conjI)
qed

subsection \<open>C8: detail and update-display of a missing Genre\<close>

text \<open>
  Claim C8: for every detail request and every update-display request whose id
  matches no Genre, the handler renders nothing: it hands to the upstream error
  handler an error of its own kind, other than a store error, with the status 404.
  (The fetches succeed.)
\<close>

theorem missing_genre_not_found:
  assumes "params_id req \<notin> genre_id ` set (genres s)"
  shows "(succeeds 2 s \<longrightarrow>
            genre_detail req s = (advance (advance s), [Next (Error ''Genre not found'' 404)]))
       \<and> (succeeds 1 s \<longrightarrow>
            genre_update_get req s = (advance s, [Next (Error ''Genre not found'' 404)]))
       \<and> Error ''Genre not found'' 404 \<noteq> StoreError"
proof -
  have f: "find (\<lambda>g. genre_id g = params_id req) (genres s) = None"
    using assms by (simp add: find_None_image)
  have "genre_detail req s = (advance (advance s), [Next (Error ''Genre not found'' 404)])"
    if "succeeds 2 s"
  proof -
    have "\<not> fault_now s" "\<not> fault_now (advance s)"
      using that by (simp_all add: eval_nat_numeral)
    then show ?thesis
      by (simp add: genre_detail_def store_defs f)
  qed
  moreover have "genre_update_get req s = (advance s, [Next (Error ''Genre not found'' 404)])"
    if "succeeds 1 s"
  proof -
    have "\<not> fault_now s"
      using that by simp
    then show ?thesis
      by (simp add: genre_update_get_def store_defs f)
  qed
  ultimately show ?thesis
    by simp
qed

theorem missing_genre_not_found_witness:
  "params_id (request_of ''g9'' [] []) \<notin> genre_id ` set (genres library)
   \<and> succeeds 2 library \<and> succeeds 1 library
   \<and> genre_detail (request_of ''g9'' [] []) library
       = (advance (advance library), [Next (Error ''Genre not found'' 404)])
   \<and> genre_update_get (request_of ''g9'' [] []) library
       = (advance library, [Next (Error ''Genre not found'' 404)])"
proof -
  have h: "params_id (request_of ''g9'' [] []) \<notin> genre_id ` set (genres library)"
    by (simp add: sample_defs)
  have h2: "succeeds 2 library" and h1: "succeeds 1 library"
    by (simp_all add: eval_nat_numeral sample_defs)
  from h h2 h1 missing_genre_not_found [OF h] show ?thesis
    by blast
qed

subsection \<open>C9: the list is sorted by name\<close>

text \<open>
  Claim C9: for every store state, the list operation renders all Genres, each
  once, in ascending order of their names, in whatever order they were created.
  (The fetch succeeds.)
\<close>

theorem genre_list_sorted_by_name:
  assumes "succeeds 1 s"
  shows "\<exists>found. genre_list req s =
            (advance s,
             [Render ''genre_list'' ((view ''Genre List'')\<lparr>list_genres := Some found\<rparr>)])
          \<and> sorted (map name found) \<and> mset found = mset (genres s)"
proof -
  have ok: "\<not> fault_now s"
    using assms by simp
  show ?thesis
    by (rule exI [of _ "sort_key name (genres s)"]) (simp add: list_rendered [OF ok])
qed

theorem genre_list_sorted_by_name_witness:
  "succeeds 1 library
   \<and> (\<exists>found. genre_list (request_of [] [] []) library =
            (advance library,
             [Render ''genre_list'' ((view ''Genre List'')\<lparr>list_genres := Some found\<rparr>)])
          \<and> sorted (map name found) \<and> mset found = mset (genres library))"
proof -
  have h: "succeeds 1 library"
    by (simp add: sample_defs)
  from h genre_list_sorted_by_name [OF h] show ?thesis
    by (intro conjI)
qed

subsection \<open>C10: delete-submit of an id that no Genre has\<close>

text \<open>
  Claim C10: for every delete-submit request whose id, taken from the form body,
  matches no Genre and has no dependent Book, the handler signals no not-found
  error: after the two fetches it calls the delete-by-id, which removes nothing,
  and redirects to the Genre list; both collections are as before. (The three
  store calls succeed.)
\<close>

theorem delete_post_missing_genre:
  assumes "succeeds 3 s"
      and "body_genreid req \<notin> genre_id ` set (genres s)"
      and "body_genreid req \<notin> book_genre ` set (books s)"
  shows "genre_delete_post req s
           = (advance (advance (advance s)), [Redirect ''/catalog/genres''])
       \<and> genres (advance (advance (advance s))) = genres s
       \<and> books (advance (advance (advance s))) = books s"
proof -
  have ok: "\<not> fault_now s" "\<not> fault_now (advance s)" "\<not> fault_now (advance (advance s))"
    using assms(1) by (simp_all add: eval_nat_numeral)
  have nb: "filter (\<lambda>b. book_genre b = body_genreid req) (books s) = []"
    using assms(3) by (rule filter_key_empty)
  have ng: "filter (\<lambda>d. genre_id d \<noteq> body_genreid req) (genres s) = genres s"
    using assms(2) by (rule filter_other_keys)
  have "(advance (advance s))\<lparr>genres := genres s\<rparr> = advance (advance s)"
    by (simp add: advance_def)
  then show ?thesis
    by (simp add: genre_delete_post_def store_defs ok nb ng)
qed

theorem delete_post_missing_genre_witness:
  "succeeds 3 library
   \<and> body_genreid (request_of [] [] ''g9'') \<notin> genre_id ` set (genres library)
   \<and> body_genreid (request_of [] [] ''g9'') \<notin> book_genre ` set (books library)
   \<and> genre_delete_post (request_of [] [] ''g9'') library
       = (advance (advance (advance library)), [Redirect ''/catalog/genres''])
   \<and> genres (advance (advance (advance library))) = genres library
   \<and> books (advance (advance (advance library))) = books library"
proof -
  have h1: "succeeds 3 library"
    by (simp add: eval_nat_numeral sample_defs)
  have h2: "body_genreid (request_of [] [] ''g9'') \<notin> genre_id ` set (genres library)"
    by (simp add: sample_defs)
  have h3: "body_genreid (request_of [] [] ''g9'') \<notin> book_genre ` set (books library)"
    by (simp add: sample_defs)
  from h1 h2 h3 delete_post_missing_genre [OF h1 h2 h3] show ?thesis
    by blast
qed

end
